theory Spec2Isabelle
  imports Main "HOL-Library.AList" "HOL-Library.List_Lexorder" "HOL-Library.Char_ord"
    "HOL-Library.Option_ord"
begin

section \<open>Values, errors and keyword arguments\<close>

text \<open>
  The development embeds \<^verbatim>\<open>chatterbot/storage/django_storage.py\<close>, the storage
  adapter of the repository whose code is at hand.  Every method of
  \<^verbatim>\<open>DjangoStorageAdapter\<close> is a function on an explicit database state; a Python
  exception is the left summand of the result.
\<close>

datatype error = TypeError | KeyError | AttributeError | FieldError | IntegrityError

text \<open>
  The Python values a caller passes as filter criteria: \<^verbatim>\<open>None\<close>, a boolean, a
  string, or a list of strings.
\<close>

datatype val = VNone | VBool bool | VStr string | VList "string list"

text \<open>Python truthiness, as tested by \<^verbatim>\<open>if responses:\<close> and \<^verbatim>\<open>if order:\<close>.\<close>

fun truthy :: "val \<Rightarrow> bool" where
  "truthy VNone = False"
| "truthy (VBool b) = b"
| "truthy (VStr s) = (s \<noteq> [])"
| "truthy (VList xs) = (xs \<noteq> [])"

text \<open>
  \<^verbatim>\<open>for response in responses\<close>: a list yields its elements, a string yields its
  characters as one-character strings, anything else is not iterable.
\<close>

fun iterate :: "val \<Rightarrow> error + string list" where
  "iterate (VList xs) = Inr xs"
| "iterate (VStr s) = Inr (map (\<lambda>c. [c]) s)"
| "iterate VNone = Inl TypeError"
| "iterate (VBool b) = Inl TypeError"

text \<open>
  \<^verbatim>\<open>**kwargs\<close> is a dictionary in insertion order: an association list whose
  assignment \<^verbatim>\<open>kwargs[k] = v\<close> is \<^const>\<open>AList.update\<close> (in place for a key that
  is present, appended otherwise), whose \<^verbatim>\<open>del kwargs[k]\<close> is \<^const>\<open>AList.delete\<close>
  and whose lookup is \<^const>\<open>map_of\<close>.
\<close>

type_synonym kwargs = "(string \<times> val) list"

text \<open>\<^verbatim>\<open>str.replace(old, new)\<close>: every occurrence of \<open>old\<close>, scanning from the left.\<close>

function replace_str :: "string \<Rightarrow> string \<Rightarrow> string \<Rightarrow> string" where
  "replace_str old new [] = (if old = [] then new else [])"
| "replace_str old new (c # cs) =
     (if old = [] then new @ c # replace_str old new cs
      else if take (length old) (c # cs) = old
      then new @ replace_str old new (drop (length old) (c # cs))
      else c # replace_str old new cs)"
  by pat_completeness auto
termination
  by (relation "measure (\<lambda>(old, new, s). length s)") (auto simp: neq_Nil_conv)

definition try_then :: "error + 'a \<Rightarrow> ('a \<Rightarrow> error + 'b) \<Rightarrow> error + 'b" where
  "try_then m f = (case m of Inl e \<Rightarrow> Inl e | Inr x \<Rightarrow> f x)"

section \<open>The database behind the object-relational mapper\<close>

text \<open>
  Modelled from the spec: the model declarations of
  \<^verbatim>\<open>chatterbot.ext.django_chatterbot.models\<close> are not among the sources.  The
  Statement model has the columns the adapter writes in \<^verbatim>\<open>update\<close> and tests in
  \<^verbatim>\<open>get_response_statements\<close> (text, conversation, in_response_to, extra_data), the
  creation timestamp of the spec's data model and the primary key every Django model
  has; \<open>in_response_to\<close> is a column that refers to another statement by its text and
  is null for a statement that starts a thread.
\<close>

record statement_row =
  pk :: nat
  "text" :: string
  conversation :: string
  in_response_to :: "string option"
  extra_data :: string
  created_at :: nat

text \<open>
  The statement table holds its rows in insertion order.  Two properties of the
  missing declarations stay parameters of the state: whether the text column carries a
  uniqueness constraint, and what the mapper answers to a keyword that the table of
  \<open>lookup\<close> below does not decide (further lookups such as \<^verbatim>\<open>text__in\<close>, further
  columns, further shapes of value).
\<close>

record database =
  statement_table :: "statement_row list"
  next_pk :: nat
  text_unique :: bool
  other_lookups :: "string \<Rightarrow> val \<Rightarrow> (statement_row \<Rightarrow> bool) option"

definition empty_database ::
  "bool \<Rightarrow> (string \<Rightarrow> val \<Rightarrow> (statement_row \<Rightarrow> bool) option) \<Rightarrow> database" where
  "empty_database uniq other =
     \<lparr>statement_table = [], next_pk = 1, text_unique = uniq, other_lookups = other\<rparr>"

text \<open>
  The object an application hands to \<^verbatim>\<open>update\<close>
  (\<^verbatim>\<open>chatterbot.conversation.Statement\<close>); the attribute \<^verbatim>\<open>extra_data\<close> is read with
  \<^verbatim>\<open>getattr(statement, 'extra_data', '')\<close>, so it may be absent.
\<close>

record statement_obj =
  obj_text :: string
  obj_conversation :: string
  obj_in_response_to :: "string option"
  obj_extra_data :: "string option"

text \<open>
  The adapter object.  \<open>read_only\<close> is the construction option of the spec, kept by the
  base class; no method of \<^verbatim>\<open>DjangoStorageAdapter\<close> reads it.
\<close>

record adapter =
  read_only :: bool

subsection \<open>The models of the adapter\<close>

text \<open>
  \<^verbatim>\<open>self.get_model(name)\<close> of the base class hands the call to the adapter's method
  \<^verbatim>\<open>get_<name>_model\<close>.  \<^verbatim>\<open>DjangoStorageAdapter\<close> defines \<^verbatim>\<open>get_statement_model\<close>
  and \<^verbatim>\<open>get_tag_model\<close> and no other getter, and \<^verbatim>\<open>drop\<close> clears these two models
  only; for any other name the attribute is missing and the call raises
  \<^verbatim>\<open>AttributeError\<close>.  The functions \<open>objects_...\<close> below are the manager of the
  Statement model, which \<^verbatim>\<open>self.get_model('statement')\<close> always yields.
\<close>

datatype model = StatementModel | TagModel

definition get_model :: "string \<Rightarrow> error + model" where
  "get_model model_name =
     (if model_name = ''statement'' then Inr StatementModel
      else if model_name = ''tag'' then Inr TagModel
      else Inl AttributeError)"

subsection \<open>Lookups\<close>

text \<open>
  The mapper splits a keyword at \<^verbatim>\<open>__\<close> and resolves the first part as a field of the
  model.
\<close>

fun first_part :: "string \<Rightarrow> string" where
  "first_part [] = []"
| "first_part [c] = [c]"
| "first_part (c # d # cs) =
     (if c = CHR ''_'' \<and> d = CHR ''_'' then [] else c # first_part (d # cs))"

definition str_lookup ::
  "(statement_row \<Rightarrow> string) \<Rightarrow> val \<Rightarrow> (statement_row \<Rightarrow> bool) option \<Rightarrow>
   (statement_row \<Rightarrow> bool) option" where
  "str_lookup f v other =
     (case v of
        VStr t \<Rightarrow> Some (\<lambda>s. f s = t)
      | VNone \<Rightarrow> Some (\<lambda>s. False)
      | _ \<Rightarrow> other)"

text \<open>
  One keyword of a query: the test it stands for, or \<open>None\<close> when the mapper refuses it
  (\<^verbatim>\<open>FieldError\<close>).  The Statement model has the column \<open>in_response_to\<close> and neither a
  field nor a relation named \<^verbatim>\<open>in_response\<close> or \<^verbatim>\<open>responses\<close>: the adapter has no
  Response model, so a keyword whose first part is one of these two names cannot be
  resolved.  A string column compared with a string is an exact match, compared with
  \<^verbatim>\<open>None\<close> it matches no row (the rows hold no null there).  Every other keyword and
  every other shape of value is left to the parameter \<open>other_lookups\<close>.
\<close>

definition lookup :: "database \<Rightarrow> string \<Rightarrow> val \<Rightarrow> (statement_row \<Rightarrow> bool) option" where
  "lookup db k v =
     (if first_part k = ''in_response'' \<or> first_part k = ''responses'' then None
      else if k = ''text'' then str_lookup text v (other_lookups db k v)
      else if k = ''conversation'' then str_lookup conversation v (other_lookups db k v)
      else if k = ''extra_data'' then str_lookup extra_data v (other_lookups db k v)
      else if k = ''in_response_to'' then
        (case v of
           VStr t \<Rightarrow> Some (\<lambda>s. in_response_to s = Some t)
         | VNone \<Rightarrow> Some (\<lambda>s. in_response_to s = None)
         | _ \<Rightarrow> other_lookups db k v)
      else if k = ''in_response_to__isnull'' then
        (case v of
           VBool b \<Rightarrow> Some (\<lambda>s. (in_response_to s = None) = b)
         | _ \<Rightarrow> other_lookups db k v)
      else other_lookups db k v)"

text \<open>\<^verbatim>\<open>Q(**kwargs)\<close> is the conjunction of its keywords.\<close>

fun kwargs_pred :: "database \<Rightarrow> kwargs \<Rightarrow> (statement_row \<Rightarrow> bool) option" where
  "kwargs_pred db [] = Some (\<lambda>s. True)"
| "kwargs_pred db ((k, v) # kw) =
     (case lookup db k v of
        None \<Rightarrow> None
      | Some f \<Rightarrow>
          (case kwargs_pred db kw of
             None \<Rightarrow> None
           | Some g \<Rightarrow> Some (\<lambda>s. f s \<and> g s)))"

datatype q = Q kwargs | QOr q q

text \<open>
  \<^verbatim>\<open>Q.__or__\<close>: an empty operand is ignored and the other one returned; only two
  non-empty operands build a disjunction.
\<close>

fun q_or :: "q \<Rightarrow> q \<Rightarrow> q" where
  "q_or a (Q []) = a"
| "q_or (Q []) b = b"
| "q_or a b = QOr a b"

fun q_pred :: "database \<Rightarrow> q \<Rightarrow> (statement_row \<Rightarrow> bool) option" where
  "q_pred db (Q kw) = kwargs_pred db kw"
| "q_pred db (QOr a b) =
     (case q_pred db a of
        None \<Rightarrow> None
      | Some f \<Rightarrow>
          (case q_pred db b of
             None \<Rightarrow> None
           | Some g \<Rightarrow> Some (\<lambda>s. f s \<or> g s)))"

subsection \<open>Query sets\<close>

text \<open>A query set is the list of rows it selects, in table order.\<close>

definition objects_count :: "database \<Rightarrow> nat" where
  "objects_count db = length (statement_table db)"

definition objects_filter :: "database \<Rightarrow> q \<Rightarrow> error + statement_row list" where
  "objects_filter db cond =
     (case q_pred db cond of
        None \<Rightarrow> Inl FieldError
      | Some f \<Rightarrow> Inr (filter f (statement_table db)))"

definition objects_exclude :: "database \<Rightarrow> q \<Rightarrow> error + statement_row list" where
  "objects_exclude db cond =
     (case q_pred db cond of
        None \<Rightarrow> Inl FieldError
      | Some f \<Rightarrow> Inr (filter (\<lambda>s. \<not> f s) (statement_table db)))"

text \<open>
  \<^verbatim>\<open>Statement.objects.create(...)\<close> inserts one row with a fresh primary key and the
  current time; with a uniqueness constraint on the text column a second row of the
  same text is refused and nothing is stored.
\<close>

definition objects_create ::
  "nat \<Rightarrow> string \<Rightarrow> string \<Rightarrow> string option \<Rightarrow> string \<Rightarrow> database \<Rightarrow>
   error + statement_row \<times> database" where
  "objects_create now t c r e db =
     (if text_unique db \<and> t \<in> set (map text (statement_table db)) then Inl IntegrityError
      else
        (let row = \<lparr>pk = next_pk db, text = t, conversation = c, in_response_to = r,
                    extra_data = e, created_at = now\<rparr>
         in Inr (row, db\<lparr>statement_table := statement_table db @ [row],
                          next_pk := Suc (next_pk db)\<rparr>)))"

text \<open>\<^verbatim>\<open>QuerySet.delete()\<close> removes the selected rows from the table.\<close>

definition queryset_delete :: "database \<Rightarrow> statement_row list \<Rightarrow> database" where
  "queryset_delete db rows =
     db\<lparr>statement_table := filter (\<lambda>s. s \<notin> set rows) (statement_table db)\<rparr>"

text \<open>
  The order \<^verbatim>\<open>'?'\<close> is the database's random order.  The outcome of the random
  source is the argument \<open>seed\<close>; the order it picks is a rotation of the rows, so any
  stored row can come first.
\<close>

definition random_order :: "nat \<Rightarrow> 'a list \<Rightarrow> 'a list" where
  "random_order seed rows = rotate seed rows"

definition sort_by_field :: "string \<Rightarrow> statement_row list \<Rightarrow> statement_row list option" where
  "sort_by_field f rows =
     (if f = ''text'' then Some (sort_key text rows)
      else if f = ''conversation'' then Some (sort_key conversation rows)
      else if f = ''extra_data'' then Some (sort_key extra_data rows)
      else if f = ''in_response_to'' then Some (sort_key in_response_to rows)
      else if f = ''created_at'' then Some (sort_key created_at rows)
      else if f = ''id'' \<or> f = ''pk'' then Some (sort_key pk rows)
      else None)"

text \<open>
  \<^verbatim>\<open>QuerySet.order_by(name)\<close>: ascending by the named column, descending with a
  leading minus sign, random for \<^verbatim>\<open>'?'\<close>; rows with equal keys keep their table
  order.  A name that is no column is refused.
\<close>

definition order_by :: "nat \<Rightarrow> val \<Rightarrow> statement_row list \<Rightarrow> error + statement_row list" where
  "order_by seed ord rows =
     (case ord of
        VStr f \<Rightarrow>
          (if f = ''?'' then Inr (random_order seed rows)
           else
             (case sort_by_field f rows of
                Some sorted_rows \<Rightarrow> Inr sorted_rows
              | None \<Rightarrow>
                  (case f of
                     [] \<Rightarrow> Inl FieldError
                   | c # g \<Rightarrow>
                       (if c = CHR ''-'' then
                          (case sort_by_field g rows of
                             Some sorted_rows \<Rightarrow> Inr (rev sorted_rows)
                           | None \<Rightarrow> Inl FieldError)
                        else Inl FieldError))))
      | _ \<Rightarrow> Inl FieldError)"

text \<open>
  \<^verbatim>\<open>QuerySet.first()\<close>: the first row, or \<^verbatim>\<open>None\<close> when there is none.
  \<^verbatim>\<open>order_by(key).last()\<close> reverses the order and takes the first row, so among the
  rows of the greatest key it yields the one that comes first in the table.
\<close>

definition queryset_first :: "'a list \<Rightarrow> 'a option" where
  "queryset_first rows = (case rows of [] \<Rightarrow> None | r # _ \<Rightarrow> Some r)"

definition ordered_last :: "('a \<Rightarrow> nat) \<Rightarrow> 'a list \<Rightarrow> 'a option" where
  "ordered_last key rows = queryset_first (rev (sort_key key (rev rows)))"

section \<open>The methods of the adapter\<close>

definition count :: "database \<Rightarrow> nat" where
  "count db = objects_count db"

text \<open>
  The loop of \<^verbatim>\<open>filter\<close> over a copy of the keys: each key is read, deleted and stored
  again under its name with \<^verbatim>\<open>in_response_to\<close> replaced by \<^verbatim>\<open>in_response\<close>.
\<close>

definition respell :: "string \<Rightarrow> string" where
  "respell kwarg = replace_str ''in_response_to'' ''in_response'' kwarg"

fun rename_kwargs :: "string list \<Rightarrow> kwargs \<Rightarrow> error + kwargs" where
  "rename_kwargs [] kwargs = Inr kwargs"
| "rename_kwargs (kwarg # rest) kwargs =
     (case map_of kwargs kwarg of
        None \<Rightarrow> Inl KeyError
      | Some v \<Rightarrow>
          rename_kwargs rest (AList.update (respell kwarg) v (AList.delete kwarg kwargs)))"

text \<open>
  The branch on \<^verbatim>\<open>'in_response' in kwargs\<close>: a truthy value becomes the candidate
  list of \<^verbatim>\<open>in_response__response__text__in\<close>, a falsy one the test
  \<^verbatim>\<open>in_response = None\<close>.
\<close>

definition translate_in_response :: "kwargs \<Rightarrow> error + kwargs" where
  "translate_in_response kwargs =
     (case map_of kwargs ''in_response'' of
        None \<Rightarrow> Inr kwargs
      | Some rs \<Rightarrow>
          (if truthy rs then
             try_then (iterate rs) (\<lambda>texts.
               Inr (AList.update ''in_response__response__text__in'' (VList texts)
                      (AList.delete ''in_response'' kwargs)))
           else Inr (AList.update ''in_response'' VNone (AList.delete ''in_response'' kwargs))))"

text \<open>The dictionary \<^verbatim>\<open>parameters\<close> of the reverse relation.\<close>

definition reverse_parameters :: "kwargs \<Rightarrow> kwargs" where
  "reverse_parameters kwargs =
     (case map_of kwargs ''in_response__response__text'' of
        None \<Rightarrow> []
      | Some v \<Rightarrow> [(''responses__statement__text'', v)])"

definition pop_order_by :: "kwargs \<Rightarrow> val" where
  "pop_order_by kwargs = (case map_of kwargs ''order_by'' of None \<Rightarrow> VNone | Some v \<Rightarrow> v)"

definition filter_statements :: "nat \<Rightarrow> database \<Rightarrow> kwargs \<Rightarrow> error + statement_row list" where
  "filter_statements seed db kwargs0 =
     (let ord = pop_order_by kwargs0;
          kwargs = AList.delete ''order_by'' kwargs0
      in try_then (rename_kwargs (map fst kwargs) kwargs) (\<lambda>kwargs1.
         try_then (translate_in_response kwargs1) (\<lambda>kwargs2.
         try_then (objects_filter db (q_or (Q kwargs2) (Q (reverse_parameters kwargs2))))
           (\<lambda>statements.
              if truthy ord then order_by seed ord statements else Inr statements))))"

definition update ::
  "adapter \<Rightarrow> nat \<Rightarrow> database \<Rightarrow> statement_obj \<Rightarrow> error + statement_row \<times> database" where
  "update self now db statement =
     objects_create now (obj_text statement) (obj_conversation statement)
       (obj_in_response_to statement)
       (case obj_extra_data statement of None \<Rightarrow> [] | Some e \<Rightarrow> e) db"

definition get_random :: "nat \<Rightarrow> database \<Rightarrow> statement_row option" where
  "get_random seed db = queryset_first (random_order seed (statement_table db))"

definition remove :: "database \<Rightarrow> string \<Rightarrow> error + database" where
  "remove db statement_text =
     try_then (objects_filter db (Q [(''text'', VStr statement_text)]))
       (\<lambda>statements. Inr (queryset_delete db statements))"

text \<open>
  \<^verbatim>\<open>get_latest_response\<close> starts with \<^verbatim>\<open>self.get_model('response')\<close>.  The lines
  after it query that model by conversation, order by \<^verbatim>\<open>created_at\<close>, take the last
  row and read its attribute \<^verbatim>\<open>response\<close>: a statement row has no such attribute, and
  a tag has no conversation to filter by.
\<close>

definition get_latest_response :: "database \<Rightarrow> string \<Rightarrow> error + statement_row option" where
  "get_latest_response db conv =
     try_then (get_model ''response'') (\<lambda>Response.
       case Response of
         StatementModel \<Rightarrow>
           (case ordered_last created_at
                   (filter (\<lambda>s. conversation s = conv) (statement_table db)) of
              None \<Rightarrow> Inr None
            | Some response \<Rightarrow> Inl AttributeError)
       | TagModel \<Rightarrow> Inl FieldError)"

definition get_response_statements :: "database \<Rightarrow> error + statement_row list" where
  "get_response_statements db =
     objects_exclude db (Q [(''in_response_to__isnull'', VBool True)])"

text \<open>
  The loop of the test suite, \<^verbatim>\<open>for statement in statement_list:
  self.adapter.update(statement)\<close>, with the clock advancing by one per call.
\<close>

fun update_each :: "adapter \<Rightarrow> nat \<Rightarrow> database \<Rightarrow> statement_obj list \<Rightarrow> error + database" where
  "update_each self now db [] = Inr db"
| "update_each self now db (statement # rest) =
     (case update self now db statement of
        Inl e \<Rightarrow> Inl e
      | Inr (row, db') \<Rightarrow> update_each self (Suc now) db' rest)"

section \<open>Scenarios of the test suite\<close>

text \<open>
  The statements of \<^verbatim>\<open>test_get_response_statements\<close>: two that start a thread and
  two replies.
\<close>

definition phone_statements :: "statement_obj list" where
  "phone_statements =
     [\<lparr>obj_text = ''What... is your quest?'', obj_conversation = [],
        obj_in_response_to = None, obj_extra_data = Some []\<rparr>,
      \<lparr>obj_text = ''This is a phone.'', obj_conversation = [],
        obj_in_response_to = None, obj_extra_data = Some []\<rparr>,
      \<lparr>obj_text = ''A what?'', obj_conversation = [],
        obj_in_response_to = Some ''This is a phone.'', obj_extra_data = Some []\<rparr>,
      \<lparr>obj_text = ''A phone.'', obj_conversation = [],
        obj_in_response_to = Some ''A what?'', obj_extra_data = Some []\<rparr>]"

text \<open>
  \<^verbatim>\<open>test_update_modifies_existing_statement\<close>: a statement is stored, its
  \<^verbatim>\<open>in_response_to\<close> is set and it is stored again.
\<close>

definition new_statement :: statement_obj where
  "new_statement =
     \<lparr>obj_text = ''New statement'', obj_conversation = [], obj_in_response_to = None,
      obj_extra_data = Some []\<rparr>"

definition new_statement_changed :: statement_obj where
  "new_statement_changed = new_statement\<lparr>obj_in_response_to := Some ''New response''\<rparr>"

text \<open>
  \<^verbatim>\<open>test_get_latest_response_from_two_responses\<close>: the chain A, B (a reply to A), C (a
  reply to B) in the conversation \<^verbatim>\<open>test\<close>.
\<close>

definition chain_statements :: "statement_obj list" where
  "chain_statements =
     [\<lparr>obj_text = ''A'', obj_conversation = ''test'', obj_in_response_to = None,
        obj_extra_data = Some []\<rparr>,
      \<lparr>obj_text = ''B'', obj_conversation = ''test'', obj_in_response_to = Some ''A'',
        obj_extra_data = Some []\<rparr>,
      \<lparr>obj_text = ''C'', obj_conversation = ''test'', obj_in_response_to = Some ''B'',
        obj_extra_data = Some []\<rparr>]"

text \<open>
  \<^verbatim>\<open>test_filter_in_response_to\<close>: two replies; the test filters by
  \<^verbatim>\<open>in_response_to="Yes"\<close> and expects the first.
\<close>

definition yes_no_statements :: "statement_obj list" where
  "yes_no_statements =
     [\<lparr>obj_text = ''A'', obj_conversation = [], obj_in_response_to = Some ''Yes'',
        obj_extra_data = Some []\<rparr>,
      \<lparr>obj_text = ''B'', obj_conversation = [], obj_in_response_to = Some ''No'',
        obj_extra_data = Some []\<rparr>]"

text \<open>
  \<^verbatim>\<open>test_filter_in_response_to_no_matches\<close>: one reply is stored and the test filters
  by \<^verbatim>\<open>in_response_to="Maybe"\<close>, which no statement has.
\<close>

definition counting_statements :: "statement_obj list" where
  "counting_statements =
     [\<lparr>obj_text = ''Testing...'', obj_conversation = [],
        obj_in_response_to = Some ''Why are you counting?'', obj_extra_data = Some []\<rparr>]"

text \<open>A database that holds the statement A and its reply B.\<close>

definition stored_pair :: database where
  "stored_pair =
     \<lparr>statement_table =
        [\<lparr>pk = 1, text = ''A'', conversation = ''test'', in_response_to = None,
           extra_data = [], created_at = 0\<rparr>,
         \<lparr>pk = 2, text = ''B'', conversation = ''test'', in_response_to = Some ''A'',
           extra_data = [], created_at = 1\<rparr>],
      next_pk = 3, text_unique = False, other_lookups = (\<lambda>k v. None)\<rparr>"

section \<open>The adapter as a state machine\<close>

text \<open>
  One call of a method: its outcome and the database after it.  A method that fails
  leaves the database as it was.
\<close>

datatype operation =
    Count
  | Filter kwargs
  | Update statement_obj
  | GetRandom
  | Remove string
  | GetLatestResponse string
  | GetResponseStatements

datatype outcome =
    Raised error
  | Number nat
  | Rows "statement_row list"
  | Row "statement_row option"
  | Stored statement_row
  | Nothing

fun perform :: "adapter \<Rightarrow> nat \<Rightarrow> nat \<Rightarrow> operation \<Rightarrow> database \<Rightarrow> outcome \<times> database" where
  "perform self seed now Count db = (Number (count db), db)"
| "perform self seed now (Filter kwargs) db =
     (case filter_statements seed db kwargs of
        Inl e \<Rightarrow> (Raised e, db)
      | Inr rows \<Rightarrow> (Rows rows, db))"
| "perform self seed now (Update statement) db =
     (case update self now db statement of
        Inl e \<Rightarrow> (Raised e, db)
      | Inr (row, db') \<Rightarrow> (Stored row, db'))"
| "perform self seed now GetRandom db = (Row (get_random seed db), db)"
| "perform self seed now (Remove statement_text) db =
     (case remove db statement_text of
        Inl e \<Rightarrow> (Raised e, db)
      | Inr db' \<Rightarrow> (Nothing, db'))"
| "perform self seed now (GetLatestResponse conv) db =
     (case get_latest_response db conv of
        Inl e \<Rightarrow> (Raised e, db)
      | Inr r \<Rightarrow> (Row r, db))"
| "perform self seed now GetResponseStatements db =
     (case get_response_statements db of
        Inl e \<Rightarrow> (Raised e, db)
      | Inr rows \<Rightarrow> (Rows rows, db))"

fun is_read :: "operation \<Rightarrow> bool" where
  "is_read (Update statement) = False"
| "is_read (Remove statement_text) = False"
| "is_read call = True"

section \<open>Auxiliary facts\<close>

subsection \<open>The stored test statements\<close>

lemma phone_statements_stored:
  "update_each self 0 (empty_database uniq other) phone_statements =
     Inr \<lparr>statement_table =
            [\<lparr>pk = 1, text = ''What... is your quest?'', conversation = [],
               in_response_to = None, extra_data = [], created_at = 0\<rparr>,
             \<lparr>pk = 2, text = ''This is a phone.'', conversation = [],
               in_response_to = None, extra_data = [], created_at = 1\<rparr>,
             \<lparr>pk = 3, text = ''A what?'', conversation = [],
               in_response_to = Some ''This is a phone.'', extra_data = [], created_at = 2\<rparr>,
             \<lparr>pk = 4, text = ''A phone.'', conversation = [],
               in_response_to = Some ''A what?'', extra_data = [], created_at = 3\<rparr>],
          next_pk = 5, text_unique = uniq, other_lookups = other\<rparr>"
  by (simp add: phone_statements_def empty_database_def update_def objects_create_def Let_def)

subsection \<open>Criteria on the text, and none\<close>

lemma filter_by_text:
  "filter_statements seed db [(''text'', VStr t)] =
     Inr (filter (\<lambda>s. text s = t) (statement_table db))"
  by (simp add: filter_statements_def pop_order_by_def try_then_def respell_def
      translate_in_response_def reverse_parameters_def objects_filter_def lookup_def
      str_lookup_def)

lemma filter_no_criteria: "filter_statements seed db [] = Inr (statement_table db)"
  by (simp add: filter_statements_def pop_order_by_def try_then_def translate_in_response_def
      reverse_parameters_def objects_filter_def)

lemma get_random_empty: "get_random seed (db\<lparr>statement_table := []\<rparr>) = None"
  by (simp add: get_random_def random_order_def queryset_first_def)

subsection \<open>Keywords the mapper cannot resolve\<close>

lemma respell_keys:
  "respell ''in_response_to'' = ''in_response''"
  "respell ''in_response'' = ''in_response''"
  "respell ''in_response_to__response__text'' = ''in_response__response__text''"
  "respell ''in_response__response__text'' = ''in_response__response__text''"
  by (simp_all add: respell_def)

lemma lookup_relation_refused:
  "lookup db ''in_response'' v = None"
  "lookup db ''in_response__response__text'' v = None"
  "lookup db ''in_response__response__text__in'' v = None"
  "lookup db ''responses__statement__text'' v = None"
  by (simp_all add: lookup_def)

lemma filter_in_response_to_list:
  "filter_statements seed db [(''in_response_to'', VList ts)] = Inl FieldError"
  by (cases ts)
    (simp_all add: filter_statements_def pop_order_by_def try_then_def respell_keys
      translate_in_response_def reverse_parameters_def objects_filter_def
      lookup_relation_refused)

lemma filter_in_response_to_str:
  "filter_statements seed db [(''in_response_to'', VStr t)] = Inl FieldError"
  by (cases t)
    (simp_all add: filter_statements_def pop_order_by_def try_then_def respell_keys
      translate_in_response_def reverse_parameters_def objects_filter_def
      lookup_relation_refused)

lemma filter_nested_text:
  "filter_statements seed db [(''in_response_to__response__text'', v)] = Inl FieldError"
  "filter_statements seed db [(''in_response__response__text'', v)] = Inl FieldError"
  by (simp_all add: filter_statements_def pop_order_by_def try_then_def respell_keys
      translate_in_response_def reverse_parameters_def objects_filter_def
      lookup_relation_refused)

subsection \<open>The missing model\<close>

lemma get_latest_response_raises: "get_latest_response db conv = Inl AttributeError"
  by (simp add: get_latest_response_def get_model_def try_then_def)

subsection \<open>Replies and removal\<close>

lemma get_response_statements_rows:
  "get_response_statements db =
     Inr (filter (\<lambda>s. in_response_to s \<noteq> None) (statement_table db))"
  by (simp add: get_response_statements_def objects_exclude_def lookup_def)




section \<open>Storing a statement\<close>

text \<open>
  C1.  A statement whose text is already stored is not updated in place.  Storing
  \<^verbatim>\<open>New statement\<close> and then the same text with \<open>in_response_to\<close> set leaves two rows
  of that text, the first still without \<open>in_response_to\<close>; when the text column is
  unique the second call raises instead and the stored row keeps its old value.
\<close>

theorem update_existing_text_duplicates:
  "try_then
     (update_each self 0 (empty_database False other) [new_statement, new_statement_changed])
     (\<lambda>db. filter_statements seed db [(''text'', VStr ''New statement'')])
   = Inr [\<lparr>pk = 1, text = ''New statement'', conversation = [], in_response_to = None,
             extra_data = [], created_at = 0\<rparr>,
          \<lparr>pk = 2, text = ''New statement'', conversation = [],
             in_response_to = Some ''New response'', extra_data = [], created_at = 1\<rparr>]
   \<and> update_each self 0 (empty_database True other) [new_statement, new_statement_changed]
     = Inl IntegrityError"
  by (simp add: filter_by_text try_then_def new_statement_def new_statement_changed_def
      empty_database_def update_def objects_create_def Let_def)

text \<open>
  C2.  With \<open>read_only\<close> set, \<^verbatim>\<open>update\<close> of a new statement on an empty database
  still stores it: the count is 1 afterwards and filtering by its text finds the row.
\<close>

theorem update_read_only_stores:
  "map_sum id (\<lambda>rd. count (snd rd))
     (update \<lparr>read_only = True\<rparr> 0 (empty_database uniq other) new_statement) = Inr 1
   \<and> try_then (update \<lparr>read_only = True\<rparr> 0 (empty_database uniq other) new_statement)
       (\<lambda>rd. filter_statements seed (snd rd) [(''text'', VStr ''New statement'')])
     = Inr [\<lparr>pk = 1, text = ''New statement'', conversation = [], in_response_to = None,
               extra_data = [], created_at = 0\<rparr>]"
  by (simp add: filter_by_text try_then_def new_statement_def empty_database_def update_def
      objects_create_def Let_def count_def objects_count_def)

section \<open>The latest response of a conversation\<close>

text \<open>
  C3.  After the chain A, B, C of the conversation \<^verbatim>\<open>test\<close> is stored into an empty
  database, \<^verbatim>\<open>get_latest_response\<close> of that conversation does not return B: it raises
  \<^verbatim>\<open>AttributeError\<close>, because the adapter has no getter for the model it asks for.  It
  raises in the same way on the empty database, where the result should be null.
\<close>

theorem latest_response_raises:
  "try_then (update_each self 0 (empty_database uniq other) chain_statements)
     (\<lambda>db. get_latest_response db ''test'') = Inl AttributeError
   \<and> get_latest_response (empty_database uniq other) ''test'' = Inl AttributeError"
  by (simp add: get_latest_response_raises try_then_def chain_statements_def
      empty_database_def update_def objects_create_def Let_def)

section \<open>Filtering\<close>

text \<open>
  C4.  After the four statements of the test are stored, filtering with
  \<^verbatim>\<open>in_response_to=[]\<close> does not return the statements whose \<open>in_response_to\<close> is
  null: the key is renamed to \<^verbatim>\<open>in_response\<close>, which is no field of the Statement
  model, and the call raises \<^verbatim>\<open>FieldError\<close>.
\<close>

theorem filter_empty_candidates_raises:
  "try_then (update_each self 0 (empty_database uniq other) phone_statements)
     (\<lambda>db. filter_statements seed db [(''in_response_to'', VList [])]) = Inl FieldError"
  by (simp add: phone_statements_stored filter_in_response_to_list try_then_def)

text \<open>
  C6.  After the two replies of \<^verbatim>\<open>test_filter_in_response_to\<close> are stored, filtering
  by \<^verbatim>\<open>in_response_to\<close>, with the text \<^verbatim>\<open>Yes\<close> or with the candidate list holding it,
  does not return the statement that satisfies the criterion: the call raises
  \<^verbatim>\<open>FieldError\<close>.
\<close>

theorem filter_by_in_response_to_raises:
  "try_then (update_each self 0 (empty_database uniq other) yes_no_statements)
     (\<lambda>db. filter_statements seed db [(''in_response_to'', VStr ''Yes'')]) = Inl FieldError
   \<and> try_then (update_each self 0 (empty_database uniq other) yes_no_statements)
       (\<lambda>db. filter_statements seed db [(''in_response_to'', VList [''Yes''])]) = Inl FieldError"
  by (simp add: filter_in_response_to_str filter_in_response_to_list try_then_def
      yes_no_statements_def empty_database_def update_def objects_create_def Let_def)

text \<open>
  C9.  After the chain A, B, C is stored, the nested criterion on the reply-target
  text with the value A does not select B or any statement: in either spelling of the
  key the call raises \<^verbatim>\<open>FieldError\<close>.
\<close>

theorem nested_reply_text_raises:
  "try_then (update_each self 0 (empty_database uniq other) chain_statements)
     (\<lambda>db. filter_statements seed db [(''in_response_to__response__text'', VStr ''A'')])
   = Inl FieldError
   \<and> try_then (update_each self 0 (empty_database uniq other) chain_statements)
       (\<lambda>db. filter_statements seed db [(''in_response__response__text'', VStr ''A'')])
     = Inl FieldError"
  by (simp add: filter_nested_text try_then_def chain_statements_def empty_database_def
      update_def objects_create_def Let_def)

section \<open>Reading the statements that reply to another\<close>

text \<open>
  C5.  \<^verbatim>\<open>get_response_statements\<close> never fails and returns exactly the stored
  statements whose \<open>in_response_to\<close> is not null, in table order.  For the four
  statements of the test, stored into an empty database, the result is the two
  replies \<^verbatim>\<open>A what?\<close> and \<^verbatim>\<open>A phone.\<close>.
\<close>

theorem get_response_statements_exact:
  "get_response_statements db =
     Inr (filter (\<lambda>s. in_response_to s \<noteq> None) (statement_table db))
   \<and> map_sum id (map text)
         (try_then (update_each self 0 (empty_database uniq other) phone_statements)
            get_response_statements)
       = Inr [''A what?'', ''A phone.'']"
  by (simp add: phone_statements_stored try_then_def get_response_statements_rows)

section \<open>Removing statements\<close>



section \<open>Nothing found\<close>

text \<open>
  C8.  Finding nothing is an error in two of the three cases: \<^verbatim>\<open>get_latest_response\<close>
  on the empty database raises \<^verbatim>\<open>AttributeError\<close> instead of returning null, and
  after the one reply of \<^verbatim>\<open>test_filter_in_response_to_no_matches\<close> is stored, filtering
  by an \<^verbatim>\<open>in_response_to\<close> that no statement has raises \<^verbatim>\<open>FieldError\<close> instead of
  returning the empty list.
\<close>

theorem nothing_found_raises:
  "get_latest_response (empty_database uniq other) ''test'' = Inl AttributeError
   \<and> try_then (update_each self 0 (empty_database uniq other) counting_statements)
       (\<lambda>db. filter_statements seed db [(''in_response_to'', VStr ''Maybe'')]) = Inl FieldError"
  by (simp add: get_latest_response_raises filter_in_response_to_str try_then_def
      counting_statements_def empty_database_def update_def objects_create_def Let_def)

section \<open>Reading leaves the store as it is\<close>

text \<open>
  C10.  After \<^verbatim>\<open>count\<close>, \<^verbatim>\<open>filter\<close>, \<^verbatim>\<open>get_random\<close>, \<^verbatim>\<open>get_latest_response\<close> or
  \<^verbatim>\<open>get_response_statements\<close> the database is the one before the call, so a
  following \<^verbatim>\<open>count\<close> or \<^verbatim>\<open>filter\<close> gives what it would have given directly.
\<close>

theorem reads_leave_store_unchanged:
  assumes "is_read call"
  shows "snd (perform self seed now call db) = db
    \<and> count (snd (perform self seed now call db)) = count db
    \<and> filter_statements seed' (snd (perform self seed now call db)) kw =
        filter_statements seed' db kw"
proof -
  have "snd (perform self seed now call db) = db"
    using assms by (cases call) (simp_all split: sum.splits)
  then show ?thesis by simp
qed

text \<open>The theorem at an ordered \<^verbatim>\<open>filter\<close> call on the database that holds A and B.\<close>

theorem reads_leave_store_unchanged_witness:
  "is_read (Filter [(''text'', VStr ''A''), (''order_by'', VStr ''text'')])
   \<and> snd (perform \<lparr>read_only = False\<rparr> 0 5
            (Filter [(''text'', VStr ''A''), (''order_by'', VStr ''text'')])
            stored_pair) = stored_pair
   \<and> count (snd (perform \<lparr>read_only = False\<rparr> 0 5
            (Filter [(''text'', VStr ''A''), (''order_by'', VStr ''text'')])
            stored_pair)) = 2"
proof -
  have r: "is_read (Filter [(''text'', VStr ''A''), (''order_by'', VStr ''text'')])"
    by simp
  have c: "count stored_pair = 2"
    by (simp add: count_def objects_count_def stored_pair_def)
  show ?thesis
    using r c reads_leave_store_unchanged [OF r, of "\<lparr>read_only = False\<rparr>" 0 5
        stored_pair 0 "[]"]
    by simp
qed

end
